theory Spec2Isabelle
  imports Complex_Main
begin

section \<open>Vectors, rays and the scene\<close>

text \<open>
  JavaScript numbers are modelled as the real numbers: every arithmetic step of the source
  is taken exactly, without the rounding of IEEE doubles. \<open>THREE.Vector3\<close> is a record of
  three numbers; the operations below are the ones of three.js that the source calls.
\<close>

record Vector3 =
  x :: real
  y :: real
  z :: real

definition vec :: "real \<Rightarrow> real \<Rightarrow> real \<Rightarrow> Vector3" where
  "vec a b c = \<lparr>x = a, y = b, z = c\<rparr>"

definition add :: "Vector3 \<Rightarrow> Vector3 \<Rightarrow> Vector3" where
  "add u v = \<lparr>x = x u + x v, y = y u + y v, z = z u + z v\<rparr>"

definition sub :: "Vector3 \<Rightarrow> Vector3 \<Rightarrow> Vector3" where
  "sub u v = \<lparr>x = x u - x v, y = y u - y v, z = z u - z v\<rparr>"

definition multiplyScalar :: "Vector3 \<Rightarrow> real \<Rightarrow> Vector3" where
  "multiplyScalar v s = \<lparr>x = x v * s, y = y v * s, z = z v * s\<rparr>"

definition lengthSq :: "Vector3 \<Rightarrow> real" where
  "lengthSq v = x v * x v + y v * y v + z v * z v"

definition length3 :: "Vector3 \<Rightarrow> real" where
  "length3 v = sqrt (lengthSq v)"

text \<open>three.js: \<open>normalize() { return this.divideScalar(this.length() || 1) }\<close>.\<close>

definition normalize :: "Vector3 \<Rightarrow> Vector3" where
  "normalize v = multiplyScalar v (1 / (if length3 v = 0 then 1 else length3 v))"

definition distanceTo :: "Vector3 \<Rightarrow> Vector3 \<Rightarrow> real" where
  "distanceTo u v = length3 (sub u v)"

text \<open>
  \<open>applyAxisAngle\<close> is only called with the axis \<open>(0, 1, 0)\<close>: the rotation about the
  vertical axis by the given angle.
\<close>

definition applyAxisAngleY :: "Vector3 \<Rightarrow> real \<Rightarrow> Vector3" where
  "applyAxisAngleY v a = \<lparr>x = x v * cos a + z v * sin a, y = y v, z = z v * cos a - x v * sin a\<rparr>"

text \<open>
  A \<open>THREE.Raycaster\<close> holds an origin, a direction and the bound \<open>far\<close>, which is
  \<open>Infinity\<close> (here \<open>None\<close>) unless the source assigns it. An intersection carries the
  hit point and its distance from the origin.
\<close>

record Ray =
  origin :: Vector3
  direction :: Vector3
  far :: "real option"

record Intersection =
  point :: Vector3
  distance :: real

text \<open>
  The collision meshes are loaded from an asset and queried only through
  \<open>raycaster.intersectObjects(collisionObjects, true)\<close>, which returns the intersections
  ordered by distance. The scene is therefore a parameter: any function from rays to
  intersection lists.
\<close>

type_synonym Scene = "Ray \<Rightarrow> Intersection list"

subsection \<open>Concrete scenes: axis-aligned planes\<close>

text \<open>
  For concrete inputs, a scene made of infinite planes perpendicular to a coordinate axis.
  A ray with unit direction meets the plane \<open>axis = c\<close> at parameter
  \<open>t = (c - start) / dir\<close> when \<open>dir \<noteq> 0\<close>, \<open>0 \<le> t\<close> and \<open>t\<close> is within \<open>far\<close>.
\<close>

datatype Plane = PlaneX real | PlaneY real | PlaneZ real

definition hitAt :: "Ray \<Rightarrow> real \<Rightarrow> real \<Rightarrow> real \<Rightarrow> Intersection list" where
  "hitAt r c start dir =
     (if dir = 0 then []
      else let t = (c - start) / dir in
        if 0 \<le> t \<and> (case far r of None \<Rightarrow> True | Some f \<Rightarrow> t \<le> f)
        then [\<lparr>point = add (origin r) (multiplyScalar (direction r) t), distance = t\<rparr>]
        else [])"

fun planeHits :: "Ray \<Rightarrow> Plane \<Rightarrow> Intersection list" where
  "planeHits r (PlaneX c) = hitAt r c (x (origin r)) (x (direction r))"
| "planeHits r (PlaneY c) = hitAt r c (y (origin r)) (y (direction r))"
| "planeHits r (PlaneZ c) = hitAt r c (z (origin r)) (z (direction r))"

definition planes :: "Plane list \<Rightarrow> Scene" where
  "planes ps r = sort_key distance (concat (map (planeHits r) ps))"

section \<open>Configuration and state\<close>

definition moveSpeed :: real where "moveSpeed = 2.5"
definition jumpForce :: real where "jumpForce = 12"
definition gravity :: real where "gravity = 40"
definition cameraDistance :: real where "cameraDistance = 3"
definition cameraHeight :: real where "cameraHeight = 2"
definition cameraSensitivity :: real where "cameraSensitivity = 0.002"
definition characterHeight :: real where "characterHeight = 1.0"
definition collisionRadius :: real where "collisionRadius = 0.3"

record Player =
  position :: Vector3
  velocity :: Vector3
  rotation :: real
  pitch :: real
  isGrounded :: bool
  isMoving :: bool
  hasJumped :: bool

record Keys =
  forward :: bool
  backward :: bool
  left :: bool
  right :: bool
  jump :: bool

section \<open>Collision detection\<close>

text \<open>
  One iteration of the loop of \<open>checkCollision\<close>: the ray starts at the current value of
  \<open>newPosition\<close> raised by half the character height, is bounded by the collision radius,
  and a hit adds the pushback to \<open>newPosition\<close> in place.
\<close>

definition probe :: "Scene \<Rightarrow> Vector3 \<Rightarrow> Vector3 \<Rightarrow> Vector3" where
  "probe scene newPosition dir =
     (let intersects = scene \<lparr>origin = vec (x newPosition) (y newPosition + characterHeight / 2) (z newPosition),
                              direction = dir, far = Some collisionRadius\<rparr>
      in case intersects of
           [] \<Rightarrow> newPosition
         | i # _ \<Rightarrow> add newPosition (multiplyScalar dir (- (collisionRadius - distance i))))"

definition directions :: "Vector3 list" where
  "directions = [vec 1 0 0, vec (-1) 0 0, vec 0 0 1, vec 0 0 (-1)]"

definition checkCollision :: "Scene \<Rightarrow> Vector3 \<Rightarrow> Vector3" where
  "checkCollision scene newPosition = foldl (probe scene) newPosition directions"

section \<open>Ground detection\<close>

definition groundRay :: "Player \<Rightarrow> Ray" where
  "groundRay player =
     \<lparr>origin = vec (x (position player)) (y (position player) + 0.5) (z (position player)),
      direction = vec 0 (-1) 0, far = Some 1.0\<rparr>"

text \<open>
  \<open>checkGround\<close> returns early after snapping. \<open>snapHeight\<close> decides that branch: it
  is the ground height the player is snapped onto, \<open>None\<close> when the function falls
  through to its last statement.
\<close>

definition snapHeight :: "Intersection list \<Rightarrow> Player \<Rightarrow> real option" where
  "snapHeight intersects player =
     (case intersects of
        [] \<Rightarrow> None
      | i # _ \<Rightarrow>
          let groundY = y (point i);
              distanceToGround = y (position player) - groundY
          in if distanceToGround \<le> 0.15 \<and> y (velocity player) \<le> 0
             then Some groundY else None)"

definition checkGround :: "Scene \<Rightarrow> Player \<Rightarrow> Player" where
  "checkGround scene player =
     (let intersects = scene (groundRay player)
      in case snapHeight intersects player of
           Some groundY \<Rightarrow>
             player\<lparr>position := (position player)\<lparr>y := groundY + 0.01\<rparr>,
                    velocity := (velocity player)\<lparr>y := 0\<rparr>,
                    isGrounded := True\<rparr>
         | None \<Rightarrow>
             if y (velocity player) > 0 \<or> intersects = []
             then player\<lparr>isGrounded := False\<rparr> else player)"

section \<open>Starting position\<close>

definition testPositions :: "Vector3 list" where
  "testPositions = [vec 0 5 0, vec 0 2 0, vec 0 0 0, vec 0 (-5) 0]"

text \<open>
  The loop over \<open>testPositions\<close>, which returns at the first position whose downward ray
  hits; the result is the new player position, \<open>None\<close> when the loop runs to its end.
\<close>

fun searchDown :: "Scene \<Rightarrow> Vector3 list \<Rightarrow> Vector3 option" where
  "searchDown scene [] = None"
| "searchDown scene (testPos # rest) =
     (case scene \<lparr>origin = testPos, direction = vec 0 (-1) 0, far = None\<rparr> of
        [] \<Rightarrow> searchDown scene rest
      | i # _ \<Rightarrow> Some ((point i)\<lparr>y := y (point i) + 0.1\<rparr>))"

definition findStartPosition :: "Scene \<Rightarrow> Player \<Rightarrow> Player" where
  "findStartPosition scene player =
     (case searchDown scene testPositions of
        Some found \<Rightarrow> player\<lparr>position := found\<rparr>
      | None \<Rightarrow>
          (case scene \<lparr>origin = vec 0 (-50) 0, direction = vec 0 1 0, far = None\<rparr> of
             i # _ \<Rightarrow> player\<lparr>position := (point i)\<lparr>y := y (point i) + 0.1\<rparr>\<rparr>
           | [] \<Rightarrow> player\<lparr>position := vec 0 0 0\<rparr>))"

section \<open>Input handling\<close>

definition player0 :: Player where
  "player0 = \<lparr>position = vec 0 0 0, velocity = vec 0 0 0, rotation = 0, pitch = 0,
              isGrounded = True, isMoving = False, hasJumped = False\<rparr>"

definition keys0 :: Keys where
  "keys0 = \<lparr>forward = False, backward = False, left = False, right = False, jump = False\<rparr>"

datatype KeyCode = KeyW | KeyS | KeyA | KeyD | Space | OtherKey

fun keydown :: "KeyCode \<Rightarrow> Keys \<Rightarrow> Keys" where
  "keydown KeyW keys = keys\<lparr>forward := True\<rparr>"
| "keydown KeyS keys = keys\<lparr>backward := True\<rparr>"
| "keydown KeyA keys = keys\<lparr>left := True\<rparr>"
| "keydown KeyD keys = keys\<lparr>right := True\<rparr>"
| "keydown Space keys = keys\<lparr>jump := True\<rparr>"
| "keydown OtherKey keys = keys"

fun keyup :: "KeyCode \<Rightarrow> Keys \<Rightarrow> Keys" where
  "keyup KeyW keys = keys\<lparr>forward := False\<rparr>"
| "keyup KeyS keys = keys\<lparr>backward := False\<rparr>"
| "keyup KeyA keys = keys\<lparr>left := False\<rparr>"
| "keyup KeyD keys = keys\<lparr>right := False\<rparr>"
| "keyup Space keys = keys\<lparr>jump := False\<rparr>"
| "keyup OtherKey keys = keys"

text \<open>
  The \<open>mousemove\<close> handler. \<open>locked\<close> says whether the pointer is locked to the document
  body when the event arrives; the event carries \<open>movementX\<close> and \<open>movementY\<close>.
\<close>

record MouseEvent =
  locked :: bool
  movementX :: real
  movementY :: real

definition mousemove :: "Player \<Rightarrow> MouseEvent \<Rightarrow> Player" where
  "mousemove player e =
     (if \<not> locked e then player
      else
        let player1 = player\<lparr>rotation := rotation player - movementX e * cameraSensitivity\<rparr>;
            player2 = player1\<lparr>pitch := pitch player1 + movementY e * cameraSensitivity\<rparr>
        in player2\<lparr>pitch := max (- pi / 3) (min (pi / 3) (pitch player2))\<rparr>)"

section \<open>Player update\<close>

definition moveDirection :: "Keys \<Rightarrow> Vector3" where
  "moveDirection keys =
     (let d0 = vec 0 0 0;
          d1 = (if forward keys then d0\<lparr>z := z d0 - 1\<rparr> else d0);
          d2 = (if backward keys then d1\<lparr>z := z d1 + 1\<rparr> else d1);
          d3 = (if left keys then d2\<lparr>x := x d2 - 1\<rparr> else d2)
      in if right keys then d3\<lparr>x := x d3 + 1\<rparr> else d3)"

text \<open>
  The first part of \<open>updatePlayer\<close>: the moving flag and the horizontal velocity. The
  second component lists the vectors on which the branch taken calls \<open>normalize\<close>.
\<close>

definition steer :: "Keys \<Rightarrow> Player \<Rightarrow> Player \<times> Vector3 list" where
  "steer keys player =
     (let moveDir = moveDirection keys;
          player1 = player\<lparr>isMoving := lengthSq moveDir > 0\<rparr>
      in if isMoving player1 then
           let turned = applyAxisAngleY (normalize moveDir) (rotation player1)
           in (player1\<lparr>velocity := (velocity player1)\<lparr>x := x turned * moveSpeed,
                                                        z := z turned * moveSpeed\<rparr>\<rparr>,
               [moveDir])
         else
           (player1\<lparr>velocity := (velocity player1)\<lparr>x := x (velocity player1) * 0.9,
                                                     z := z (velocity player1) * 0.9\<rparr>\<rparr>,
            []))"

definition jumpStep :: "Keys \<Rightarrow> Player \<Rightarrow> Keys \<times> Player" where
  "jumpStep keys player =
     (if jump keys \<and> isGrounded player
      then (keys\<lparr>jump := False\<rparr>,
            player\<lparr>velocity := (velocity player)\<lparr>y := jumpForce\<rparr>, isGrounded := False\<rparr>)
      else (keys, player))"

definition applyGravity :: "real \<Rightarrow> Player \<Rightarrow> Player" where
  "applyGravity delta player =
     (if \<not> isGrounded player
      then player\<lparr>velocity := (velocity player)\<lparr>y := y (velocity player) - gravity * delta\<rparr>\<rparr>
      else player)"

definition integratePosition :: "real \<Rightarrow> Player \<Rightarrow> Vector3" where
  "integratePosition delta player =
     \<lparr>x = x (position player) + x (velocity player) * delta,
      y = y (position player) + y (velocity player) * delta,
      z = z (position player) + z (velocity player) * delta\<rparr>"

definition preventFall :: "Player \<Rightarrow> Player" where
  "preventFall player =
     (if y (position player) < - 10
      then player\<lparr>position := vec 0 5 0, velocity := vec 0 0 0\<rparr>
      else player)"

text \<open>\<open>updatePlayer\<close> up to and including the ground check.\<close>

definition moveAndLand :: "Scene \<Rightarrow> real \<Rightarrow> Keys \<times> Player \<Rightarrow> Keys \<times> Player" where
  "moveAndLand scene delta s =
     (let (keys, player) = s;
          player1 = fst (steer keys player);
          (keys2, player2) = jumpStep keys player1;
          player3 = applyGravity delta player2;
          collisionChecked = checkCollision scene (integratePosition delta player3);
          player4 = player3\<lparr>position := collisionChecked\<rparr>
      in (keys2, checkGround scene player4))"

definition updatePlayer :: "Scene \<Rightarrow> real \<Rightarrow> Keys \<times> Player \<Rightarrow> Keys \<times> Player" where
  "updatePlayer scene delta s =
     (let (keys2, player5) = moveAndLand scene delta s
      in (keys2, preventFall player5))"

section \<open>Camera\<close>

definition playerHead :: "Player \<Rightarrow> Vector3" where
  "playerHead player = (position player)\<lparr>y := y (position player) + characterHeight\<rparr>"

definition desiredCameraPos :: "Player \<Rightarrow> Vector3" where
  "desiredCameraPos player =
     add (position player)
       (vec (sin (rotation player) * cameraDistance)
            (cameraHeight + sin (pitch player) * cameraDistance)
            (cos (rotation player) * cameraDistance))"

definition sightRay :: "Player \<Rightarrow> Ray" where
  "sightRay player =
     \<lparr>origin = playerHead player,
      direction = normalize (sub (desiredCameraPos player) (playerHead player)),
      far = Some (distanceTo (playerHead player) (desiredCameraPos player))\<rparr>"

text \<open>
  \<open>updateCamera\<close> returns the new \<open>camera.position\<close>; \<open>snoopy\<close> says whether the
  character model has been loaded, and the function returns at once when it has not.
\<close>

definition updateCamera :: "Scene \<Rightarrow> bool \<Rightarrow> Player \<Rightarrow> Vector3 \<Rightarrow> Vector3" where
  "updateCamera scene snoopy player camera =
     (if \<not> snoopy then camera
      else case scene (sightRay player) of
             [] \<Rightarrow> desiredCameraPos player
           | i # _ \<Rightarrow>
               let safeDistance = distance i - 0.2
               in if safeDistance > 0.5
                  then add (playerHead player)
                         (multiplyScalar (direction (sightRay player)) safeDistance)
                  else playerHead player)"

section \<open>Events and frames\<close>

text \<open>
  What the event handlers of \<open>setupInput\<close> and the frame callback \<open>animate\<close> do to the key
  state and the player. A frame carries the time the clock reports since the last frame and
  whether the pointer is locked; \<open>animate\<close> caps the time at 0.1 and updates the player only
  when the character model is loaded (\<open>snoopy\<close>) and the pointer is locked.
\<close>

datatype Event = KeyDown KeyCode | KeyUp KeyCode | MouseMove MouseEvent | Frame real bool

fun dispatch :: "Scene \<Rightarrow> bool \<Rightarrow> Keys \<times> Player \<Rightarrow> Event \<Rightarrow> Keys \<times> Player" where
  "dispatch scene snoopy (keys, player) (KeyDown code) = (keydown code keys, player)"
| "dispatch scene snoopy (keys, player) (KeyUp code) = (keyup code keys, player)"
| "dispatch scene snoopy (keys, player) (MouseMove e) = (keys, mousemove player e)"
| "dispatch scene snoopy (keys, player) (Frame elapsed lock) =
     (let delta = min elapsed 0.1
      in if snoopy \<and> lock then updatePlayer scene delta (keys, player) else (keys, player))"

section \<open>Reference definitions and concrete inputs\<close>

text \<open>
  The correction one probe contributes when its ray is cast for the position \<open>start\<close>:
  the opposite of the probe direction scaled by the penetration depth, zero without a hit.
\<close>

definition pushback :: "Scene \<Rightarrow> Vector3 \<Rightarrow> Vector3 \<Rightarrow> Vector3" where
  "pushback scene start dir =
     (case scene \<lparr>origin = vec (x start) (y start + characterHeight / 2) (z start),
                  direction = dir, far = Some collisionRadius\<rparr> of
        [] \<Rightarrow> vec 0 0 0
      | i # _ \<Rightarrow> multiplyScalar dir (- (collisionRadius - distance i)))"

text \<open>
  The resolver as the specification words it: all four rays leave the tentative position,
  and the four corrections are added to it.
\<close>

definition independentPushbacks :: "Scene \<Rightarrow> Vector3 \<Rightarrow> Vector3" where
  "independentPushbacks scene tentative =
     foldl add tentative (map (pushback scene tentative) directions)"

text \<open>A corridor between the walls \<open>x = 0.1\<close> and \<open>x = -0.25\<close>.\<close>

definition corridor :: Scene where
  "corridor = planes [PlaneX 0.1, PlaneX (- 0.25)]"

text \<open>A single horizontal floor at height 0.\<close>

definition floor0 :: Scene where
  "floor0 = planes [PlaneY 0]"

text \<open>Two horizontal surfaces, at heights 0.4 and 0.7.\<close>

definition shelves :: Scene where
  "shelves = planes [PlaneY 0.4, PlaneY 0.7]"

text \<open>
  The placement search as the specification words it: the first of the altitudes
  5, 2, 0, -5 whose downward ray from \<open>(0, y, 0)\<close> hits, then one upward ray from
  \<open>(0, -50, 0)\<close>, then the origin; a hit point is raised by 0.1.
\<close>

definition raised :: "Intersection list \<Rightarrow> Vector3" where
  "raised intersects = (point (hd intersects))\<lparr>y := y (point (hd intersects)) + 0.1\<rparr>"

definition placementSearch :: "Scene \<Rightarrow> Vector3" where
  "placementSearch scene =
     (let down = (\<lambda>h. scene \<lparr>origin = vec 0 h 0, direction = vec 0 (-1) 0, far = None\<rparr>);
          up = scene \<lparr>origin = vec 0 (-50) 0, direction = vec 0 1 0, far = None\<rparr>
      in case List.find (\<lambda>h. down h \<noteq> []) [5, 2, 0, -5] of
           Some h \<Rightarrow> raised (down h)
         | None \<Rightarrow> if up \<noteq> [] then raised up else vec 0 0 0)"

text \<open>
  The player as the snapping branch of \<open>checkGround\<close> leaves it on ground height \<open>g\<close>,
  and the ground ray a following check casts for it: from 0.5 above the snapped feet.
\<close>

definition snapped :: "Player \<Rightarrow> real \<Rightarrow> Player" where
  "snapped player g =
     player\<lparr>position := (position player)\<lparr>y := g + 0.01\<rparr>,
            velocity := (velocity player)\<lparr>y := 0\<rparr>, isGrounded := True\<rparr>"

definition rayAfterSnap :: "Player \<Rightarrow> real \<Rightarrow> Ray" where
  "rayAfterSnap player g =
     \<lparr>origin = vec (x (position player)) (g + 0.01 + 0.5) (z (position player)),
      direction = vec 0 (-1) 0, far = Some 1.0\<rparr>"

text \<open>A scene without any geometry: no ray hits.\<close>

definition emptyScene :: Scene where
  "emptyScene r = []"

text \<open>
  A run of frames with no input event in between: \<open>updatePlayer\<close> applied once for each
  time step of the list.
\<close>

definition frames :: "Scene \<Rightarrow> Keys \<times> Player \<Rightarrow> real list \<Rightarrow> Keys \<times> Player" where
  "frames scene s deltas = foldl (\<lambda>s delta. updatePlayer scene delta s) s deltas"

text \<open>
  The number of steps of such a run that take the jump branch of \<open>updatePlayer\<close>, whose
  condition is that the jump key is set and the player is grounded.
\<close>

fun impulses :: "Scene \<Rightarrow> Keys \<times> Player \<Rightarrow> real list \<Rightarrow> nat" where
  "impulses scene s [] = 0"
| "impulses scene s (delta # deltas) =
     (if jump (fst s) \<and> isGrounded (snd s) then 1 else 0)
     + impulses scene (updatePlayer scene delta s) deltas"

text \<open>The magnitude of the horizontal part of a velocity.\<close>

definition hspeed :: "Vector3 \<Rightarrow> real" where
  "hspeed v = sqrt (x v * x v + z v * z v)"

text \<open>A wall \<open>z = c\<close>; for \<open>c > 0\<close> it stands behind a player at the origin facing yaw 0.\<close>

definition wallBehind :: "real \<Rightarrow> Scene" where
  "wallBehind c = planes [PlaneZ c]"

section \<open>Collision resolver\<close>

lemma add_zero: "add p (vec 0 0 0) = p"
  by (simp add: add_def vec_def)

lemma probe_pushback: "probe scene p dir = add p (pushback scene p dir)"
  by (simp add: probe_def pushback_def add_zero split: list.splits)

lemma pushback_horizontal: "y dir = 0 \<Longrightarrow> y (pushback scene p dir) = 0"
  by (simp add: pushback_def multiplyScalar_def vec_def split: list.splits)

text \<open>
  C1, as stated, at a concrete input. In the corridor, with the tentative position at the
  origin, the +X probe finds the wall at distance 0.1 and pushes the position to
  \<open>x = -0.2\<close>; the -X probe is then cast from there, finds the other wall at distance
  0.05 and pushes back by 0.25, so the resolver returns \<open>x = 0.05\<close>. Four rays cast from
  the tentative position itself would give corrections -0.2 and +0.05, hence \<open>x = -0.15\<close>.
\<close>

theorem checkCollision_independent_counterexample:
  "checkCollision corridor (vec 0 0 0) = vec (1 / 20) 0 0
   \<and> independentPushbacks corridor (vec 0 0 0) = vec (- (3 / 20)) 0 0
   \<and> checkCollision corridor (vec 0 0 0) \<noteq> independentPushbacks corridor (vec 0 0 0)"
  by (simp add: checkCollision_def independentPushbacks_def pushback_def directions_def
      probe_def corridor_def planes_def hitAt_def vec_def add_def multiplyScalar_def
      characterHeight_def collisionRadius_def Let_def)

text \<open>
  C1, amended. The resolver probes +X, -X, +Z, -Z in this order. Each ray is cast from the
  position as corrected by the probes before it, raised by half the character height and
  bounded by the collision radius; a hit pushes the position back along the opposite of
  the probe direction by \<open>radius - hitDistance\<close>, and the result is the tentative position
  plus the corrections so computed.
\<close>

theorem checkCollision_sequential:
  "checkCollision scene p =
     (let p1 = add p (pushback scene p (vec 1 0 0));
          p2 = add p1 (pushback scene p1 (vec (-1) 0 0));
          p3 = add p2 (pushback scene p2 (vec 0 0 1))
      in add p3 (pushback scene p3 (vec 0 0 (-1))))"
  by (simp add: checkCollision_def directions_def probe_pushback Let_def)

text \<open>
  C10. For every tentative position and every scene, the collision resolver returns a
  position with the same vertical coordinate: every probe direction is horizontal, so
  every pushback is.
\<close>

theorem checkCollision_keeps_y:
  "y (checkCollision scene newPosition) = y newPosition
   \<and> (\<forall>p. list_all (\<lambda>dir. y dir = 0 \<and> y (pushback scene p dir) = 0) directions)"
  by (simp add: checkCollision_def directions_def probe_pushback add_def
      pushback_horizontal vec_def)

section \<open>Starting position\<close>

lemma searchDown_find:
  "searchDown scene (map (\<lambda>h. vec 0 h 0) hs) =
     (case List.find (\<lambda>h. scene \<lparr>origin = vec 0 h 0, direction = vec 0 (-1) 0, far = None\<rparr> \<noteq> []) hs of
        Some h \<Rightarrow> Some (raised (scene \<lparr>origin = vec 0 h 0, direction = vec 0 (-1) 0, far = None\<rparr>))
      | None \<Rightarrow> None)"
  by (induction hs) (auto simp add: raised_def split: list.splits)

lemma testPositions_heights: "testPositions = map (\<lambda>h. vec 0 h 0) [5, 2, 0, -5]"
  by (simp add: testPositions_def)

text \<open>
  C5. The search sets the position to the hit point, raised by 0.1, of the first downward
  ray from \<open>(0, y, 0)\<close>, \<open>y\<close> = 5, 2, 0, -5 in this order, that hits; without such a hit,
  to the raised hit point of one upward ray from \<open>(0, -50, 0)\<close>; and to the origin when
  that misses too. With a single horizontal floor at height 0 the result is
  \<open>(0, 0.1, 0)\<close>.
\<close>

theorem findStartPosition_search:
  "findStartPosition scene player = player\<lparr>position := placementSearch scene\<rparr>
   \<and> findStartPosition floor0 player = player\<lparr>position := vec 0 (1 / 10) 0\<rparr>"
proof
  show "findStartPosition scene player = player\<lparr>position := placementSearch scene\<rparr>"
    unfolding findStartPosition_def placementSearch_def testPositions_heights
      searchDown_find Let_def
    by (simp add: raised_def split: option.splits list.splits)
  show "findStartPosition floor0 player = player\<lparr>position := vec 0 (1 / 10) 0\<rparr>"
    by (simp add: findStartPosition_def testPositions_def floor0_def planes_def hitAt_def
        vec_def add_def multiplyScalar_def)
qed

section \<open>Ground check\<close>

lemma checkGround_no_snap:
  "snapHeight (scene (groundRay player)) player = None \<Longrightarrow>
   checkGround scene player =
     (if y (velocity player) > 0 \<or> scene (groundRay player) = []
      then player\<lparr>isGrounded := False\<rparr> else player)"
  by (simp add: checkGround_def)

lemma groundRay_snapped: "groundRay (snapped player g) = rayAfterSnap player g"
  by (simp add: groundRay_def rayAfterSnap_def snapped_def vec_def)

lemma snapped_again: "snapped (snapped player g) g = snapped player g"
  by (simp add: snapped_def)

lemma checkGround_idle:
  assumes "snapHeight (scene (groundRay player)) player = None"
  shows "checkGround scene (checkGround scene player) = checkGround scene player"
proof -
  let ?q = "checkGround scene player"
  have q: "?q = (if y (velocity player) > 0 \<or> scene (groundRay player) = []
      then player\<lparr>isGrounded := False\<rparr> else player)"
    using assms by (rule checkGround_no_snap)
  have ray: "groundRay ?q = groundRay player"
    by (simp add: q groundRay_def)
  have "snapHeight (scene (groundRay ?q)) ?q = None"
    using assms by (simp add: ray) (simp add: q snapHeight_def Let_def split: list.splits)
  then have "checkGround scene ?q =
      (if y (velocity ?q) > 0 \<or> scene (groundRay ?q) = [] then ?q\<lparr>isGrounded := False\<rparr> else ?q)"
    by (rule checkGround_no_snap)
  also have "\<dots> = ?q"
    unfolding ray by (simp add: q)
  finally show ?thesis .
qed

lemma second_no_hit:
  assumes "scene (rayAfterSnap player g) = []"
  shows "checkGround scene (snapped player g) = (snapped player g)\<lparr>isGrounded := False\<rparr>"
  using assms by (simp add: checkGround_def groundRay_snapped snapHeight_def)

lemma second_snap:
  assumes "scene (rayAfterSnap player g) = i # rest" "g + 0.01 - y (point i) \<le> 0.15"
  shows "checkGround scene (snapped player g) = snapped player (y (point i))"
  using assms
  by (simp add: checkGround_def groundRay_snapped snapHeight_def Let_def) (simp add: snapped_def)

lemma second_far:
  assumes "scene (rayAfterSnap player g) = i # rest" "0.15 < g + 0.01 - y (point i)"
  shows "checkGround scene (snapped player g) = snapped player g"
  using assms
  by (simp add: checkGround_def groundRay_snapped snapHeight_def Let_def) (simp add: snapped_def)

lemma snapped_fields:
  "isGrounded (snapped player g) \<and> y (position (snapped player g)) = g + 0.01
   \<and> y (velocity (snapped player g)) = 0"
  by (simp add: snapped_def)

lemma second_check:
  "(isGrounded (checkGround scene (snapped player g)) = isGrounded (snapped player g)
    \<and> y (position (checkGround scene (snapped player g))) = y (position (snapped player g))
    \<and> y (velocity (checkGround scene (snapped player g))) = y (velocity (snapped player g)))
   = (case scene (rayAfterSnap player g) of
        [] \<Rightarrow> False
      | i # _ \<Rightarrow> y (point i) = g \<or> 0.15 < g + 0.01 - y (point i))"
proof (cases "scene (rayAfterSnap player g)")
  case Nil
  then show ?thesis
    by (simp add: second_no_hit snapped_fields)
next
  case (Cons i rest)
  show ?thesis
  proof (cases "g + 0.01 - y (point i) \<le> 0.15")
    case True
    then show ?thesis
      using second_snap [of scene player g i rest] Cons by (simp add: snapped_fields)
  next
    case False
    then show ?thesis
      using second_far [of scene player g i rest] Cons by simp
  qed
qed

lemma second_same:
  assumes "scene (rayAfterSnap player g) = i # rest"
    "y (point i) = g \<or> 0.15 < g + 0.01 - y (point i)"
  shows "checkGround scene (snapped player g) = snapped player g"
proof (cases "g + 0.01 - y (point i) \<le> 0.15")
  case True
  then have "y (point i) = g" using assms(2) by simp
  then show ?thesis
    using second_snap [of scene player g i rest] assms(1) True by simp
next
  case False
  then show ?thesis
    using second_far [of scene player g i rest] assms(1) by simp
qed

text \<open>
  C6, as stated, at a concrete input. With surfaces at heights 0.4 and 0.7 and the player
  at the origin at rest, the first ground ray starts at height 0.5 and sees only the lower
  surface: the player is snapped to 0.41. The second ray starts at 0.91, meets the upper
  surface first, and the player is snapped to 0.71.
\<close>

theorem checkGround_twice_counterexample:
  "y (position (checkGround shelves player0)) = 41 / 100
   \<and> y (position (checkGround shelves (checkGround shelves player0))) = 71 / 100"
  by (simp add: checkGround_def snapHeight_def groundRay_def shelves_def player0_def
      planes_def hitAt_def vec_def add_def multiplyScalar_def Let_def)

text \<open>
  C6, amended. When the first ground check does not snap, a second check leaves the state
  as the first left it. When the first check snaps the player onto ground height \<open>g\<close>, the
  second check yields the same grounded flag, vertical position and vertical velocity
  exactly when the ray cast from the snapped position, whose origin is at height
  \<open>g + 0.51\<close>, reports a first surface whose height is \<open>g\<close> or lies more than 0.15 below
  the snapped feet; the whole state is then unchanged. Otherwise (no hit, or a first
  surface at another height within the tolerance) the second check changes at least one of
  the three.
\<close>

theorem checkGround_twice:
  "(snapHeight (scene (groundRay player)) player = None \<longrightarrow>
      checkGround scene (checkGround scene player) = checkGround scene player)
   \<and> (snapHeight (scene (groundRay player)) player = Some g \<longrightarrow>
        checkGround scene player = snapped player g
      \<and> (isGrounded (checkGround scene (checkGround scene player)) = isGrounded (checkGround scene player)
          \<and> y (position (checkGround scene (checkGround scene player))) = y (position (checkGround scene player))
          \<and> y (velocity (checkGround scene (checkGround scene player))) = y (velocity (checkGround scene player)))
        = (case scene (rayAfterSnap player g) of
             [] \<Rightarrow> False
           | i # _ \<Rightarrow> y (point i) = g \<or> 0.15 < g + 0.01 - y (point i)))
   \<and> (snapHeight (scene (groundRay player)) player = Some g
      \<and> scene (rayAfterSnap player g) = i # rest
      \<and> (y (point i) = g \<or> 0.15 < g + 0.01 - y (point i)) \<longrightarrow>
        checkGround scene (checkGround scene player) = checkGround scene player)"
proof (intro conjI impI)
  assume "snapHeight (scene (groundRay player)) player = None"
  then show "checkGround scene (checkGround scene player) = checkGround scene player"
    by (rule checkGround_idle)
next
  assume s: "snapHeight (scene (groundRay player)) player = Some g"
  show q: "checkGround scene player = snapped player g"
    using s by (simp add: checkGround_def snapped_def)
  show "(isGrounded (checkGround scene (checkGround scene player)) = isGrounded (checkGround scene player)
          \<and> y (position (checkGround scene (checkGround scene player))) = y (position (checkGround scene player))
          \<and> y (velocity (checkGround scene (checkGround scene player))) = y (velocity (checkGround scene player)))
        = (case scene (rayAfterSnap player g) of
             [] \<Rightarrow> False
           | i # _ \<Rightarrow> y (point i) = g \<or> 0.15 < g + 0.01 - y (point i))"
    unfolding q by (rule second_check)
next
  assume a: "snapHeight (scene (groundRay player)) player = Some g
      \<and> scene (rayAfterSnap player g) = i # rest
      \<and> (y (point i) = g \<or> 0.15 < g + 0.01 - y (point i))"
  then have q: "checkGround scene player = snapped player g"
    by (simp add: checkGround_def snapped_def)
  show "checkGround scene (checkGround scene player) = checkGround scene player"
    unfolding q using second_same [of scene player g i rest] a by blast
qed

theorem checkGround_twice_witness:
  "snapHeight (emptyScene (groundRay player0)) player0 = None
   \<and> checkGround emptyScene (checkGround emptyScene player0) = checkGround emptyScene player0
   \<and> snapHeight (floor0 (groundRay player0)) player0 = Some 0
   \<and> floor0 (rayAfterSnap player0 0) = [\<lparr>point = vec 0 0 0, distance = 51 / 100\<rparr>]
   \<and> checkGround floor0 player0 = snapped player0 0
   \<and> checkGround floor0 (checkGround floor0 player0) = checkGround floor0 player0"
proof -
  have idle: "snapHeight (emptyScene (groundRay player0)) player0 = None"
    by (simp add: snapHeight_def emptyScene_def)
  have snap: "snapHeight (floor0 (groundRay player0)) player0 = Some 0"
    by (simp add: snapHeight_def groundRay_def floor0_def player0_def planes_def hitAt_def
        vec_def add_def multiplyScalar_def Let_def)
  have again: "floor0 (rayAfterSnap player0 0) = [\<lparr>point = vec 0 0 0, distance = 51 / 100\<rparr>]"
    by (simp add: rayAfterSnap_def floor0_def player0_def planes_def hitAt_def vec_def add_def
        multiplyScalar_def Let_def)
  have same: "y (point \<lparr>point = vec 0 0 0, distance = 51 / 100\<rparr>) = 0
      \<or> 0.15 < 0 + 0.01 - y (point \<lparr>point = vec 0 0 0, distance = 51 / 100\<rparr>)"
    by (simp add: vec_def)
  have first: "checkGround emptyScene (checkGround emptyScene player0) = checkGround emptyScene player0"
    using checkGround_twice [of emptyScene player0] idle by blast
  have is_snapped: "checkGround floor0 player0 = snapped player0 0"
    using checkGround_twice [of floor0 player0 0] snap by blast
  have second: "checkGround floor0 (checkGround floor0 player0) = checkGround floor0 player0"
    using checkGround_twice [of floor0 player0 0 "\<lparr>point = vec 0 0 0, distance = 51 / 100\<rparr>" "[]"]
      snap again same by blast
  show ?thesis
    by (intro conjI idle first snap again is_snapped second)
qed

section \<open>Look handler\<close>

lemma pitch_steer: "pitch (fst (steer keys player)) = pitch player"
  by (simp add: steer_def Let_def)

lemma pitch_jumpStep: "pitch (snd (jumpStep keys player)) = pitch player"
  by (simp add: jumpStep_def)

lemma pitch_applyGravity: "pitch (applyGravity delta player) = pitch player"
  by (simp add: applyGravity_def)

lemma pitch_checkGround: "pitch (checkGround scene player) = pitch player"
  by (simp add: checkGround_def Let_def split: option.splits)

lemma pitch_preventFall: "pitch (preventFall player) = pitch player"
  by (simp add: preventFall_def)

lemma pitch_updatePlayer: "pitch (snd (updatePlayer scene delta s)) = pitch (snd s)"
  by (simp add: updatePlayer_def moveAndLand_def Let_def split_beta pitch_preventFall
      pitch_checkGround pitch_applyGravity pitch_jumpStep pitch_steer)

lemma pi3: "- pi / 3 \<le> pi / 3"
  using pi_gt_zero by simp

lemma clamp_range:
  fixes lo hi v :: real
  assumes "lo \<le> hi"
  shows "lo \<le> max lo (min hi v) \<and> max lo (min hi v) \<le> hi"
  using assms by auto

lemma pitch_mousemove:
  assumes "- pi / 3 \<le> pitch player \<and> pitch player \<le> pi / 3"
  shows "- pi / 3 \<le> pitch (mousemove player e) \<and> pitch (mousemove player e) \<le> pi / 3"
proof (cases "locked e")
  case True
  then have "pitch (mousemove player e) =
      max (- pi / 3) (min (pi / 3) (pitch player + movementY e * cameraSensitivity))"
    by (simp add: mousemove_def Let_def)
  then show ?thesis
    using clamp_range [OF pi3] by presburger
next
  case False
  then have "mousemove player e = player"
    by (simp add: mousemove_def)
  then show ?thesis
    using assms by presburger
qed

lemma pitch_dispatch:
  assumes "- pi / 3 \<le> pitch (snd s) \<and> pitch (snd s) \<le> pi / 3"
  shows "- pi / 3 \<le> pitch (snd (dispatch scene snoopy s e))
       \<and> pitch (snd (dispatch scene snoopy s e)) \<le> pi / 3"
proof (cases s)
  case (Pair keys player)
  show ?thesis
  proof (cases e)
    case (MouseMove m)
    have "dispatch scene snoopy s e = (keys, mousemove player m)"
      by (simp add: Pair MouseMove)
    then show ?thesis
      using pitch_mousemove [of player m] assms Pair by auto
  next
    case (Frame elapsed lock)
    have "pitch (snd (dispatch scene snoopy s e)) = pitch (snd s)"
      by (simp add: Pair Frame Let_def pitch_updatePlayer)
    then show ?thesis
      using assms by presburger
  next
    case (KeyDown c)
    have "pitch (snd (dispatch scene snoopy s e)) = pitch (snd s)"
      by (simp add: Pair KeyDown)
    then show ?thesis
      using assms by presburger
  next
    case (KeyUp c)
    have "pitch (snd (dispatch scene snoopy s e)) = pitch (snd s)"
      by (simp add: Pair KeyUp)
    then show ?thesis
      using assms by presburger
  qed
qed

lemma pitch_run:
  "- pi / 3 \<le> pitch (snd s) \<and> pitch (snd s) \<le> pi / 3 \<Longrightarrow>
   - pi / 3 \<le> pitch (snd (foldl (dispatch scene snoopy) s es)) \<and> pitch (snd (foldl (dispatch scene snoopy) s es)) \<le> pi / 3"
proof (induction es arbitrary: s)
  case Nil
  then show ?case by simp
next
  case (Cons e es)
  show ?case
    using Cons.IH [OF pitch_dispatch [OF Cons.prems]] by simp
qed

text \<open>
  C3. Starting from pitch 0, after any sequence of events (mouse movements with any
  deltas, key presses and releases, frames) the pitch lies in \<open>[-\<pi>/3, \<pi>/3]\<close>. The
  statement holds for every sequence, hence after every update of a sequence.
\<close>

theorem pitch_clamped:
  assumes "pitch player = 0"
  shows "- pi / 3 \<le> pitch (snd (foldl (dispatch scene snoopy) (keys, player) events))
       \<and> pitch (snd (foldl (dispatch scene snoopy) (keys, player) events)) \<le> pi / 3"
proof (rule pitch_run)
  show "- pi / 3 \<le> pitch (snd (keys, player)) \<and> pitch (snd (keys, player)) \<le> pi / 3"
    using assms pi_gt_zero by simp
qed

theorem pitch_clamped_witness:
  "pitch player0 = 0
   \<and> - pi / 3 \<le> pitch (snd (foldl (dispatch floor0 True) (keys0, player0)
        [MouseMove \<lparr>locked = True, movementX = 0, movementY = 1000\<rparr>, Frame 0.016 True]))
   \<and> pitch (snd (foldl (dispatch floor0 True) (keys0, player0)
        [MouseMove \<lparr>locked = True, movementX = 0, movementY = 1000\<rparr>, Frame 0.016 True])) \<le> pi / 3"
  using pitch_clamped [of player0 floor0 True keys0
      "[MouseMove \<lparr>locked = True, movementX = 0, movementY = 1000\<rparr>, Frame 0.016 True]"]
  by (simp add: player0_def)

section \<open>Jump\<close>

lemma steer_grounded: "isGrounded (fst (steer keys player)) = isGrounded player"
  by (simp add: steer_def Let_def)

lemma jump_updatePlayer: "jump (fst (updatePlayer scene delta s)) = (jump (fst s) \<and> \<not> isGrounded (snd s))"
  by (auto simp add: updatePlayer_def moveAndLand_def Let_def split_beta jumpStep_def steer_grounded)

lemma checkGround_rising: "0 < y (velocity player) \<Longrightarrow> checkGround scene player = player\<lparr>isGrounded := False\<rparr>"
  by (simp add: checkGround_def snapHeight_def Let_def split: list.splits)

lemma grounded_preventFall: "isGrounded (preventFall player) = isGrounded player"
  by (simp add: preventFall_def)

lemma jump_leaves_ground:
  assumes "jump keys" "isGrounded player" "delta < 0.3"
  shows "\<not> isGrounded (snd (updatePlayer scene delta (keys, player)))"
proof -
  let ?p1 = "fst (steer keys player)"
  let ?p2 = "?p1\<lparr>velocity := (velocity ?p1)\<lparr>y := jumpForce\<rparr>, isGrounded := False\<rparr>"
  let ?p3 = "applyGravity delta ?p2"
  let ?p4 = "?p3\<lparr>position := checkCollision scene (integratePosition delta ?p3)\<rparr>"
  have j: "jumpStep keys ?p1 = (keys\<lparr>jump := False\<rparr>, ?p2)"
    using assms by (simp add: jumpStep_def steer_grounded)
  have "y (velocity ?p4) = jumpForce - gravity * delta"
    by (simp add: applyGravity_def)
  then have "0 < y (velocity ?p4)"
    using assms(3) by (simp add: jumpForce_def gravity_def)
  then have "checkGround scene ?p4 = ?p4\<lparr>isGrounded := False\<rparr>"
    by (rule checkGround_rising)
  then show ?thesis
    by (simp add: updatePlayer_def moveAndLand_def Let_def j grounded_preventFall)
qed

lemma jump_velocity:
  assumes "jump keys" "isGrounded player" "delta < 0.3"
  shows "y (velocity (snd (moveAndLand scene delta (keys, player)))) = 12 - 40 * delta"
proof -
  let ?p1 = "fst (steer keys player)"
  let ?p2 = "?p1\<lparr>velocity := (velocity ?p1)\<lparr>y := jumpForce\<rparr>, isGrounded := False\<rparr>"
  let ?p3 = "applyGravity delta ?p2"
  let ?p4 = "?p3\<lparr>position := checkCollision scene (integratePosition delta ?p3)\<rparr>"
  have j: "jumpStep keys ?p1 = (keys\<lparr>jump := False\<rparr>, ?p2)"
    using assms by (simp add: jumpStep_def steer_grounded)
  have v: "y (velocity ?p4) = jumpForce - gravity * delta"
    by (simp add: applyGravity_def)
  then have "0 < y (velocity ?p4)"
    using assms(3) by (simp add: jumpForce_def gravity_def)
  then have "checkGround scene ?p4 = ?p4\<lparr>isGrounded := False\<rparr>"
    by (rule checkGround_rising)
  then have "y (velocity (snd (moveAndLand scene delta (keys, player)))) = y (velocity ?p4)"
    by (simp add: moveAndLand_def Let_def j)
  then show ?thesis
    using v by (simp add: jumpForce_def gravity_def)
qed

lemma airborne_ignores_jump:
  assumes "\<not> isGrounded player"
  shows "updatePlayer scene delta (keys, player) = (keys, snd (updatePlayer scene delta (keys\<lparr>jump := False\<rparr>, player)))"
proof -
  have m: "moveDirection (keys\<lparr>jump := False\<rparr>) = moveDirection keys"
    by (simp add: moveDirection_def)
  have s: "steer (keys\<lparr>jump := False\<rparr>) player = steer keys player"
    by (simp add: steer_def m)
  show ?thesis using assms
    by (simp add: updatePlayer_def moveAndLand_def Let_def s jumpStep_def steer_grounded)
qed

lemma no_intent_no_impulse: "\<not> jump (fst s) \<Longrightarrow> impulses scene s deltas = 0"
proof (induction deltas arbitrary: s)
  case Nil
  then show ?case by simp
next
  case (Cons d ds)
  have "\<not> jump (fst (updatePlayer scene d s))"
    using Cons.prems by (simp add: jump_updatePlayer)
  then have "impulses scene (updatePlayer scene d s) ds = 0"
    by (rule Cons.IH)
  then show ?case using Cons.prems by simp
qed

lemma at_most_one: "impulses scene s deltas \<le> 1"
proof (induction deltas arbitrary: s)
  case Nil
  then show ?case by simp
next
  case (Cons d ds)
  show ?case
  proof (cases "jump (fst s) \<and> isGrounded (snd s)")
    case True
    then have "\<not> jump (fst (updatePlayer scene d s))"
      by (simp add: jump_updatePlayer)
    then have "impulses scene (updatePlayer scene d s) ds = 0"
      by (rule no_intent_no_impulse)
    then show ?thesis by simp
  next
    case False
    then show ?thesis using Cons.IH [of "updatePlayer scene d s"] by auto
  qed
qed

text \<open>
  C2. In a step where the jump key is set and the player is grounded, the jump branch sets
  the vertical velocity to 12, clears the grounded flag and resets the jump key; with a
  time step below 0.3 (\<open>animate\<close> caps it at 0.1) the step ends with the key reset, the
  player airborne and the vertical velocity \<open>12 - 40 * delta\<close> the impulse and one
  step of gravity give. While the player is airborne the jump key has no effect on the step.
  Over a run of frames with the key pressed on the ground and no further key event, exactly
  one step takes the jump branch; over any such run at most one does.
\<close>

theorem jump_edge_triggered:
  "(jump keys \<and> isGrounded player \<longrightarrow>
      jumpStep keys player =
        (keys\<lparr>jump := False\<rparr>,
         player\<lparr>velocity := (velocity player)\<lparr>y := 12\<rparr>, isGrounded := False\<rparr>))
   \<and> (jump keys \<and> isGrounded player \<and> delta < 0.3 \<longrightarrow>
        \<not> jump (fst (updatePlayer scene delta (keys, player)))
      \<and> \<not> isGrounded (snd (updatePlayer scene delta (keys, player)))
      \<and> y (velocity (snd (moveAndLand scene delta (keys, player)))) = 12 - 40 * delta)
   \<and> (\<not> isGrounded player \<longrightarrow>
        updatePlayer scene delta (keys, player) =
          (keys, snd (updatePlayer scene delta (keys\<lparr>jump := False\<rparr>, player))))
   \<and> (jump keys \<and> isGrounded player \<longrightarrow>
        impulses scene (keys, player) (delta # deltas) = 1)
   \<and> impulses scene (keys, player) deltas \<le> 1"
proof (intro conjI impI)
  assume "jump keys \<and> isGrounded player"
  then show "jumpStep keys player =
        (keys\<lparr>jump := False\<rparr>,
         player\<lparr>velocity := (velocity player)\<lparr>y := 12\<rparr>, isGrounded := False\<rparr>)"
    by (simp add: jumpStep_def jumpForce_def)
next
  assume "jump keys \<and> isGrounded player \<and> delta < 0.3"
  then show "\<not> jump (fst (updatePlayer scene delta (keys, player)))"
    by (simp add: jump_updatePlayer)
next
  assume "jump keys \<and> isGrounded player \<and> delta < 0.3"
  then show "\<not> isGrounded (snd (updatePlayer scene delta (keys, player)))"
    by (simp add: jump_leaves_ground)
next
  assume "jump keys \<and> isGrounded player \<and> delta < 0.3"
  then show "y (velocity (snd (moveAndLand scene delta (keys, player)))) = 12 - 40 * delta"
    by (simp add: jump_velocity)
next
  assume "\<not> isGrounded player"
  then show "updatePlayer scene delta (keys, player) =
          (keys, snd (updatePlayer scene delta (keys\<lparr>jump := False\<rparr>, player)))"
    by (rule airborne_ignores_jump)
next
  assume "jump keys \<and> isGrounded player"
  then have "\<not> jump (fst (updatePlayer scene delta (keys, player)))"
    by (simp add: jump_updatePlayer)
  then have "impulses scene (updatePlayer scene delta (keys, player)) deltas = 0"
    by (rule no_intent_no_impulse)
  then show "impulses scene (keys, player) (delta # deltas) = 1"
    using \<open>jump keys \<and> isGrounded player\<close> by simp
next
  show "impulses scene (keys, player) deltas \<le> 1"
    by (rule at_most_one)
qed

theorem jump_edge_triggered_witness:
  "jump (keys0\<lparr>jump := True\<rparr>) \<and> isGrounded player0 \<and> (1 / 10 :: real) < 0.3
   \<and> jumpStep (keys0\<lparr>jump := True\<rparr>) player0 =
        (keys0\<lparr>jump := True, jump := False\<rparr>,
         player0\<lparr>velocity := (velocity player0)\<lparr>y := 12\<rparr>, isGrounded := False\<rparr>)
   \<and> \<not> jump (fst (updatePlayer floor0 (1 / 10) (keys0\<lparr>jump := True\<rparr>, player0)))
   \<and> \<not> isGrounded (snd (updatePlayer floor0 (1 / 10) (keys0\<lparr>jump := True\<rparr>, player0)))
   \<and> y (velocity (snd (moveAndLand floor0 (1 / 10) (keys0\<lparr>jump := True\<rparr>, player0)))) = 8
   \<and> impulses floor0 (keys0\<lparr>jump := True\<rparr>, player0) [1 / 10, 1 / 10] = 1
   \<and> \<not> isGrounded (player0\<lparr>isGrounded := False\<rparr>)
   \<and> updatePlayer floor0 (1 / 10) (keys0\<lparr>jump := True\<rparr>, player0\<lparr>isGrounded := False\<rparr>) =
        (keys0\<lparr>jump := True\<rparr>,
         snd (updatePlayer floor0 (1 / 10)
               (keys0\<lparr>jump := True, jump := False\<rparr>, player0\<lparr>isGrounded := False\<rparr>)))"
  using jump_edge_triggered [of "keys0\<lparr>jump := True\<rparr>" player0 "1 / 10" floor0 "[1 / 10]"]
    jump_edge_triggered [of "keys0\<lparr>jump := True\<rparr>" "player0\<lparr>isGrounded := False\<rparr>" "1 / 10" floor0 "[]"]
  by (simp add: player0_def)

section \<open>Fall safety net\<close>

text \<open>
  C4. When the vertical position is below -10 after the ground check of an update step, the
  step ends with the position at the spawn point \<open>(0, 5, 0)\<close> and all three velocity
  components zero; when it is at or above -10, the step ends in the state the ground check
  left, without a reset.
\<close>

theorem fall_reset:
  "(y (position (snd (moveAndLand scene delta s))) < - 10 \<longrightarrow>
       position (snd (updatePlayer scene delta s)) = vec 0 5 0
     \<and> velocity (snd (updatePlayer scene delta s)) = vec 0 0 0)
   \<and> (- 10 \<le> y (position (snd (moveAndLand scene delta s))) \<longrightarrow>
       updatePlayer scene delta s = moveAndLand scene delta s)"
  by (simp add: updatePlayer_def preventFall_def split_beta)

lemma fallen_below:
  "y (position (snd (moveAndLand emptyScene (1 / 10)
      (keys0, player0\<lparr>position := vec 0 (- 11) 0\<rparr>)))) = - 11"
  by (simp add: moveAndLand_def steer_def jumpStep_def keys0_def player0_def moveDirection_def
      Let_def lengthSq_def vec_def applyGravity_def integratePosition_def checkCollision_def
      probe_def directions_def emptyScene_def checkGround_def snapHeight_def)

lemma standing_above:
  "y (position (snd (moveAndLand floor0 (1 / 10) (keys0, player0)))) = 1 / 100"
  by (simp add: moveAndLand_def steer_def jumpStep_def keys0_def player0_def moveDirection_def
      Let_def lengthSq_def vec_def applyGravity_def integratePosition_def checkCollision_def
      probe_def directions_def floor0_def planes_def hitAt_def checkGround_def snapHeight_def
      groundRay_def add_def multiplyScalar_def characterHeight_def collisionRadius_def)

theorem fall_reset_witness:
  "y (position (snd (moveAndLand emptyScene (1 / 10)
      (keys0, player0\<lparr>position := vec 0 (- 11) 0\<rparr>)))) < - 10
   \<and> position (snd (updatePlayer emptyScene (1 / 10)
        (keys0, player0\<lparr>position := vec 0 (- 11) 0\<rparr>))) = vec 0 5 0
   \<and> velocity (snd (updatePlayer emptyScene (1 / 10)
        (keys0, player0\<lparr>position := vec 0 (- 11) 0\<rparr>))) = vec 0 0 0
   \<and> - 10 \<le> y (position (snd (moveAndLand floor0 (1 / 10) (keys0, player0))))
   \<and> updatePlayer floor0 (1 / 10) (keys0, player0) = moveAndLand floor0 (1 / 10) (keys0, player0)"
  using fall_reset [of emptyScene "1 / 10" "(keys0, player0\<lparr>position := vec 0 (- 11) 0\<rparr>)"]
    fall_reset [of floor0 "1 / 10" "(keys0, player0)"]
  by (simp add: fallen_below standing_above)

section \<open>Deceleration\<close>

lemma moveDirection_cancel:
  "forward keys = backward keys \<Longrightarrow> left keys = right keys \<Longrightarrow> moveDirection keys = vec 0 0 0"
  by (simp add: moveDirection_def vec_def Let_def)

lemma moveDirection_lengthSq:
  "(0 < lengthSq (moveDirection keys)) = (\<not> (forward keys = backward keys \<and> left keys = right keys))"
  by (cases "forward keys"; cases "backward keys"; cases "left keys"; cases "right keys")
     (simp_all add: moveDirection_def vec_def Let_def lengthSq_def)

lemma steer_idle:
  assumes "forward keys = backward keys" "left keys = right keys"
  shows "steer keys player =
     (player\<lparr>isMoving := False,
             velocity := (velocity player)\<lparr>x := x (velocity player) * 0.9,
                                           z := z (velocity player) * 0.9\<rparr>\<rparr>, [])"
  using moveDirection_lengthSq [of keys] assms by (simp add: steer_def Let_def)

lemma hspeed_damped: "hspeed (v\<lparr>x := x v * 0.9, z := z v * 0.9\<rparr>) = 0.9 * hspeed v"
proof -
  have "x v * 0.9 * (x v * 0.9) + z v * 0.9 * (z v * 0.9) = 0.9\<^sup>2 * (x v * x v + z v * z v)"
    by (simp add: power2_eq_square algebra_simps)
  then have "hspeed (v\<lparr>x := x v * 0.9, z := z v * 0.9\<rparr>) = sqrt (0.9\<^sup>2 * (x v * x v + z v * z v))"
    by (simp add: hspeed_def)
  also have "\<dots> = 0.9 * hspeed v"
    by (simp only: real_sqrt_mult hspeed_def) simp
  finally show ?thesis .
qed

lemma hspeed_nonneg: "0 \<le> hspeed v"
  by (simp add: hspeed_def)

lemma hspeed_y: "hspeed (v\<lparr>y := a\<rparr>) = hspeed v"
  by (simp add: hspeed_def)

lemma hspeed_jumpStep: "hspeed (velocity (snd (jumpStep keys player))) = hspeed (velocity player)"
  by (simp add: jumpStep_def hspeed_y)

lemma hspeed_applyGravity: "hspeed (velocity (applyGravity delta player)) = hspeed (velocity player)"
  by (simp add: applyGravity_def hspeed_y)

lemma hspeed_checkGround: "hspeed (velocity (checkGround scene player)) = hspeed (velocity player)"
  by (simp add: checkGround_def Let_def hspeed_y split: option.splits)

lemma hspeed_preventFall: "hspeed (velocity (preventFall player)) \<le> hspeed (velocity player)"
  by (simp add: preventFall_def hspeed_nonneg) (simp add: hspeed_def vec_def)

lemma hspeed_moveAndLand:
  assumes "forward keys = backward keys" "left keys = right keys"
  shows "hspeed (velocity (snd (moveAndLand scene delta (keys, player)))) = 0.9 * hspeed (velocity player)"
  using hspeed_damped [of "velocity player"]
  by (simp add: moveAndLand_def Let_def split_beta steer_idle [OF assms] hspeed_checkGround
      hspeed_applyGravity hspeed_jumpStep)

lemma hspeed_updatePlayer:
  assumes "forward keys = backward keys" "left keys = right keys"
  shows "hspeed (velocity (snd (updatePlayer scene delta (keys, player)))) \<le> 0.9 * hspeed (velocity player)"
proof -
  have "hspeed (velocity (snd (updatePlayer scene delta (keys, player))))
      \<le> hspeed (velocity (snd (moveAndLand scene delta (keys, player))))"
    by (simp add: updatePlayer_def split_beta hspeed_preventFall)
  then show ?thesis
    using hspeed_moveAndLand [OF assms] by simp
qed

lemma keys_updatePlayer:
  "forward (fst (updatePlayer scene delta s)) = forward (fst s)
   \<and> backward (fst (updatePlayer scene delta s)) = backward (fst s)
   \<and> left (fst (updatePlayer scene delta s)) = left (fst s)
   \<and> right (fst (updatePlayer scene delta s)) = right (fst s)"
  by (simp add: updatePlayer_def moveAndLand_def Let_def split_beta jumpStep_def)

lemma hspeed_frames:
  assumes "forward (fst s) = backward (fst s)" "left (fst s) = right (fst s)"
  shows "hspeed (velocity (snd (frames scene s deltas))) \<le> 0.9 ^ length deltas * hspeed (velocity (snd s))"
  using assms
proof (induction deltas arbitrary: s)
  case Nil
  then show ?case by (simp add: frames_def)
next
  case (Cons d ds)
  let ?s' = "updatePlayer scene d s"
  have k: "forward (fst ?s') = backward (fst ?s')" "left (fst ?s') = right (fst ?s')"
    using Cons.prems by (simp_all add: keys_updatePlayer)
  have step: "hspeed (velocity (snd ?s')) \<le> 0.9 * hspeed (velocity (snd s))"
    using hspeed_updatePlayer [of "fst s" scene d "snd s"] Cons.prems by simp
  have "hspeed (velocity (snd (frames scene s (d # ds)))) = hspeed (velocity (snd (frames scene ?s' ds)))"
    by (simp add: frames_def)
  also have "\<dots> \<le> 0.9 ^ length ds * hspeed (velocity (snd ?s'))"
    using Cons.IH [OF k] .
  also have "\<dots> \<le> 0.9 ^ length ds * (0.9 * hspeed (velocity (snd s)))"
    using step by (simp add: mult_left_mono)
  finally show ?case by (simp add: mult.assoc mult.left_commute)
qed

lemma decay_below:
  fixes h e :: real
  assumes "0 \<le> h" "0 < e"
  shows "\<exists>N. \<forall>n\<ge>N. 0.9 ^ n * h < e"
proof -
  have "0 < e / (h + 1)" using assms by simp
  then obtain N where N: "(0.9::real) ^ N < e / (h + 1)"
    using real_arch_pow_inv [of "e / (h + 1)" "0.9"] by auto
  have "\<forall>n\<ge>N. 0.9 ^ n * h < e"
  proof (intro allI impI)
    fix n assume "N \<le> n"
    then have "(0.9::real) ^ n \<le> 0.9 ^ N"
      by (simp add: power_decreasing)
    then have "(0.9::real) ^ n < e / (h + 1)"
      using N by (rule order_le_less_trans)
    then have "0.9 ^ n * (h + 1) < e"
      using assms by (simp add: pos_less_divide_eq)
    moreover have "0.9 ^ n * h \<le> 0.9 ^ n * (h + 1)"
      by (rule mult_left_mono) simp_all
    ultimately show "0.9 ^ n * h < e"
      by (rule order_le_less_trans [rotated])
  qed
  then show ?thesis by blast
qed

lemma xz_jumpStep:
  "x (velocity (snd (jumpStep keys player))) = x (velocity player)
   \<and> z (velocity (snd (jumpStep keys player))) = z (velocity player)"
  by (simp add: jumpStep_def)

lemma xz_applyGravity:
  "x (velocity (applyGravity delta player)) = x (velocity player)
   \<and> z (velocity (applyGravity delta player)) = z (velocity player)"
  by (simp add: applyGravity_def)

lemma xz_checkGround:
  "x (velocity (checkGround scene player)) = x (velocity player)
   \<and> z (velocity (checkGround scene player)) = z (velocity player)"
  by (simp add: checkGround_def Let_def split: option.splits)

lemma xz_moveAndLand:
  assumes "forward keys = backward keys" "left keys = right keys"
  shows "x (velocity (snd (moveAndLand scene delta (keys, player)))) = x (velocity player) * 0.9
       \<and> z (velocity (snd (moveAndLand scene delta (keys, player)))) = z (velocity player) * 0.9"
  by (simp add: moveAndLand_def Let_def split_beta steer_idle [OF assms] xz_checkGround
      xz_applyGravity xz_jumpStep)

lemma xz_updatePlayer:
  assumes "forward keys = backward keys" "left keys = right keys"
  shows "(y (position (snd (moveAndLand scene delta (keys, player)))) < - 10 \<longrightarrow>
            x (velocity (snd (updatePlayer scene delta (keys, player)))) = 0
          \<and> z (velocity (snd (updatePlayer scene delta (keys, player)))) = 0)
       \<and> (- 10 \<le> y (position (snd (moveAndLand scene delta (keys, player)))) \<longrightarrow>
            x (velocity (snd (updatePlayer scene delta (keys, player)))) = x (velocity player) * 0.9
          \<and> z (velocity (snd (updatePlayer scene delta (keys, player)))) = z (velocity player) * 0.9)"
  using xz_moveAndLand [OF assms, of scene delta player]
  by (simp add: updatePlayer_def preventFall_def split_beta vec_def)

lemma xz_frames:
  assumes "forward (fst s) = backward (fst s)" "left (fst s) = right (fst s)"
  shows "(x (velocity (snd (frames scene s deltas))) = 0.9 ^ length deltas * x (velocity (snd s))
          \<and> z (velocity (snd (frames scene s deltas))) = 0.9 ^ length deltas * z (velocity (snd s)))
       \<or> (x (velocity (snd (frames scene s deltas))) = 0
          \<and> z (velocity (snd (frames scene s deltas))) = 0)"
  using assms
proof (induction deltas arbitrary: s)
  case Nil
  then show ?case by (simp add: frames_def)
next
  case (Cons d ds)
  let ?s' = "updatePlayer scene d s"
  have k: "forward (fst ?s') = backward (fst ?s')" "left (fst ?s') = right (fst ?s')"
    using Cons.prems by (simp_all add: keys_updatePlayer)
  have f: "frames scene s (d # ds) = frames scene ?s' ds"
    by (simp add: frames_def)
  have step: "(x (velocity (snd ?s')) = x (velocity (snd s)) * 0.9 \<and> z (velocity (snd ?s')) = z (velocity (snd s)) * 0.9)
      \<or> (x (velocity (snd ?s')) = 0 \<and> z (velocity (snd ?s')) = 0)"
    using xz_updatePlayer [of "fst s" scene d "snd s"] Cons.prems
    by (cases "y (position (snd (moveAndLand scene d s))) < - 10") simp_all
  from Cons.IH [OF k] step show ?case
    unfolding f by (auto simp add: mult.assoc)
qed

lemma moving_floor:
  "y (position (snd (moveAndLand floor0 (1 / 10) (keys0, player0\<lparr>velocity := vec 3 0 4\<rparr>)))) = 1 / 100"
  by (simp add: moveAndLand_def steer_def jumpStep_def keys0_def player0_def moveDirection_def
      Let_def lengthSq_def vec_def applyGravity_def integratePosition_def checkCollision_def
      probe_def directions_def floor0_def planes_def hitAt_def checkGround_def snapHeight_def
      groundRay_def add_def multiplyScalar_def characterHeight_def collisionRadius_def)

lemma falling_void:
  "y (position (snd (moveAndLand emptyScene (1 / 10)
      (keys0, player0\<lparr>position := vec 0 (- 11) 0, velocity := vec 3 0 4\<rparr>)))) = - 11"
  by (simp add: moveAndLand_def steer_def jumpStep_def keys0_def player0_def moveDirection_def
      Let_def lengthSq_def vec_def applyGravity_def integratePosition_def checkCollision_def
      probe_def directions_def emptyScene_def checkGround_def snapHeight_def)

text \<open>
  C7. With no directional input (all four keys unset, or opposing keys cancelling) the step
  takes the deceleration branch, which multiplies both horizontal velocity components by
  0.9; the step ends with exactly these components, and with the horizontal speed times
  0.9, unless the fall reset zeroes the velocity. So a step never increases the horizontal
  speed; after a run of \<open>n\<close> such steps the horizontal components are \<open>0.9 ^ n\<close> times the
  initial ones, or zero after a fall reset; and for every initial velocity and every
  \<open>eps > 0\<close> there is a number \<open>N\<close> of steps, the same for every scene and every
  sequence of time steps, after which the horizontal speed is below \<open>eps\<close>.
\<close>

theorem damping_converges:
  assumes "forward keys = backward keys" "left keys = right keys" "0 < eps"
  shows "fst (steer keys player) =
           player\<lparr>isMoving := False,
                  velocity := (velocity player)\<lparr>x := x (velocity player) * 0.9,
                                                z := z (velocity player) * 0.9\<rparr>\<rparr>
       \<and> x (velocity (snd (moveAndLand scene delta (keys, player)))) = x (velocity player) * 0.9
       \<and> z (velocity (snd (moveAndLand scene delta (keys, player)))) = z (velocity player) * 0.9
       \<and> hspeed (velocity (snd (moveAndLand scene delta (keys, player)))) = 0.9 * hspeed (velocity player)
       \<and> (y (position (snd (moveAndLand scene delta (keys, player)))) < - 10 \<longrightarrow>
            x (velocity (snd (updatePlayer scene delta (keys, player)))) = 0
          \<and> z (velocity (snd (updatePlayer scene delta (keys, player)))) = 0)
       \<and> (- 10 \<le> y (position (snd (moveAndLand scene delta (keys, player)))) \<longrightarrow>
            x (velocity (snd (updatePlayer scene delta (keys, player)))) = x (velocity player) * 0.9
          \<and> z (velocity (snd (updatePlayer scene delta (keys, player)))) = z (velocity player) * 0.9)
       \<and> hspeed (velocity (snd (updatePlayer scene delta (keys, player)))) \<le> hspeed (velocity player)
       \<and> ((x (velocity (snd (frames scene (keys, player) deltas))) = 0.9 ^ length deltas * x (velocity player)
            \<and> z (velocity (snd (frames scene (keys, player) deltas))) = 0.9 ^ length deltas * z (velocity player))
          \<or> (x (velocity (snd (frames scene (keys, player) deltas))) = 0
            \<and> z (velocity (snd (frames scene (keys, player) deltas))) = 0))
       \<and> (\<exists>N. \<forall>scene deltas. N \<le> length deltas \<longrightarrow>
             hspeed (velocity (snd (frames scene (keys, player) deltas))) < eps)"
proof (intro conjI)
  show "fst (steer keys player) =
           player\<lparr>isMoving := False,
                  velocity := (velocity player)\<lparr>x := x (velocity player) * 0.9,
                                                z := z (velocity player) * 0.9\<rparr>\<rparr>"
    by (simp add: steer_idle [OF assms(1,2)])
  show "x (velocity (snd (moveAndLand scene delta (keys, player)))) = x (velocity player) * 0.9"
    and "z (velocity (snd (moveAndLand scene delta (keys, player)))) = z (velocity player) * 0.9"
    using xz_moveAndLand [OF assms(1,2), of scene delta player] by simp_all
  show "hspeed (velocity (snd (moveAndLand scene delta (keys, player)))) = 0.9 * hspeed (velocity player)"
    by (rule hspeed_moveAndLand [OF assms(1,2)])
  show "y (position (snd (moveAndLand scene delta (keys, player)))) < - 10 \<longrightarrow>
            x (velocity (snd (updatePlayer scene delta (keys, player)))) = 0
          \<and> z (velocity (snd (updatePlayer scene delta (keys, player)))) = 0"
    and "- 10 \<le> y (position (snd (moveAndLand scene delta (keys, player)))) \<longrightarrow>
            x (velocity (snd (updatePlayer scene delta (keys, player)))) = x (velocity player) * 0.9
          \<and> z (velocity (snd (updatePlayer scene delta (keys, player)))) = z (velocity player) * 0.9"
    using xz_updatePlayer [OF assms(1,2), of scene delta player] by blast+
  have "0.9 * hspeed (velocity player) \<le> hspeed (velocity player)"
    using hspeed_nonneg [of "velocity player"] by simp
  then show "hspeed (velocity (snd (updatePlayer scene delta (keys, player)))) \<le> hspeed (velocity player)"
    using hspeed_updatePlayer [OF assms(1,2), of scene delta player] by simp
  show "(x (velocity (snd (frames scene (keys, player) deltas))) = 0.9 ^ length deltas * x (velocity player)
            \<and> z (velocity (snd (frames scene (keys, player) deltas))) = 0.9 ^ length deltas * z (velocity player))
          \<or> (x (velocity (snd (frames scene (keys, player) deltas))) = 0
            \<and> z (velocity (snd (frames scene (keys, player) deltas))) = 0)"
    using xz_frames [of "(keys, player)" scene deltas] assms(1,2) by simp
  obtain N where N: "\<forall>n\<ge>N. 0.9 ^ n * hspeed (velocity player) < eps"
    using decay_below [OF hspeed_nonneg assms(3)] by blast
  have "\<forall>scene deltas. N \<le> length deltas \<longrightarrow>
             hspeed (velocity (snd (frames scene (keys, player) deltas))) < eps"
  proof (intro allI impI)
    fix scene :: Scene and deltas :: "real list"
    assume "N \<le> length deltas"
    then have "0.9 ^ length deltas * hspeed (velocity player) < eps"
      using N by blast
    moreover have "hspeed (velocity (snd (frames scene (keys, player) deltas)))
        \<le> 0.9 ^ length deltas * hspeed (velocity (snd (keys, player)))"
      by (rule hspeed_frames) (simp_all add: assms)
    ultimately show "hspeed (velocity (snd (frames scene (keys, player) deltas))) < eps"
      by simp
  qed
  then show "\<exists>N. \<forall>scene deltas. N \<le> length deltas \<longrightarrow>
             hspeed (velocity (snd (frames scene (keys, player) deltas))) < eps"
    by blast
qed

theorem damping_converges_witness:
  "forward keys0 = backward keys0 \<and> left keys0 = right keys0 \<and> (0::real) < 1
   \<and> x (velocity (snd (moveAndLand floor0 (1 / 10) (keys0, player0\<lparr>velocity := vec 3 0 4\<rparr>)))) = 27 / 10
   \<and> z (velocity (snd (moveAndLand floor0 (1 / 10) (keys0, player0\<lparr>velocity := vec 3 0 4\<rparr>)))) = 36 / 10
   \<and> - 10 \<le> y (position (snd (moveAndLand floor0 (1 / 10) (keys0, player0\<lparr>velocity := vec 3 0 4\<rparr>))))
   \<and> x (velocity (snd (updatePlayer floor0 (1 / 10) (keys0, player0\<lparr>velocity := vec 3 0 4\<rparr>)))) = 27 / 10
   \<and> z (velocity (snd (updatePlayer floor0 (1 / 10) (keys0, player0\<lparr>velocity := vec 3 0 4\<rparr>)))) = 36 / 10
   \<and> y (position (snd (moveAndLand emptyScene (1 / 10)
        (keys0, player0\<lparr>position := vec 0 (- 11) 0, velocity := vec 3 0 4\<rparr>)))) < - 10
   \<and> x (velocity (snd (updatePlayer emptyScene (1 / 10)
        (keys0, player0\<lparr>position := vec 0 (- 11) 0, velocity := vec 3 0 4\<rparr>)))) = 0
   \<and> z (velocity (snd (updatePlayer emptyScene (1 / 10)
        (keys0, player0\<lparr>position := vec 0 (- 11) 0, velocity := vec 3 0 4\<rparr>)))) = 0
   \<and> (\<exists>N. \<forall>scene deltas. N \<le> length deltas \<longrightarrow>
         hspeed (velocity (snd (frames scene (keys0, player0\<lparr>velocity := vec 3 0 4\<rparr>) deltas))) < 1)"
proof -
  let ?a = "player0\<lparr>velocity := vec 3 0 4\<rparr>"
  let ?b = "player0\<lparr>position := vec 0 (- 11) 0, velocity := vec 3 0 4\<rparr>"
  have idle: "forward keys0 = backward keys0" "left keys0 = right keys0"
    by (simp_all add: keys0_def)
  have pos: "(0::real) < 1"
    by simp
  note on_floor = damping_converges [OF idle pos, of ?a floor0 "1 / 10" "[]"]
  note in_void = damping_converges [OF idle pos, of ?b emptyScene "1 / 10" "[]"]
  have above: "- 10 \<le> y (position (snd (moveAndLand floor0 (1 / 10) (keys0, ?a))))"
    by (simp add: moving_floor)
  have below: "y (position (snd (moveAndLand emptyScene (1 / 10) (keys0, ?b)))) < - 10"
    by (simp add: falling_void)
  have vx: "x (velocity ?a) * 0.9 = 27 / 10" and vz: "z (velocity ?a) * 0.9 = 36 / 10"
    by (simp_all add: vec_def)
  have m: "x (velocity (snd (moveAndLand floor0 (1 / 10) (keys0, ?a)))) = 27 / 10"
      "z (velocity (snd (moveAndLand floor0 (1 / 10) (keys0, ?a)))) = 36 / 10"
    using on_floor vx vz by presburger+
  have u: "x (velocity (snd (updatePlayer floor0 (1 / 10) (keys0, ?a)))) = 27 / 10"
      "z (velocity (snd (updatePlayer floor0 (1 / 10) (keys0, ?a)))) = 36 / 10"
    using on_floor above vx vz by presburger+
  have r: "x (velocity (snd (updatePlayer emptyScene (1 / 10) (keys0, ?b)))) = 0"
      "z (velocity (snd (updatePlayer emptyScene (1 / 10) (keys0, ?b)))) = 0"
    using in_void below by blast+
  have conv: "\<exists>N. \<forall>scene deltas. N \<le> length deltas \<longrightarrow>
         hspeed (velocity (snd (frames scene (keys0, ?a) deltas))) < 1"
    using on_floor by blast
  show ?thesis
    by (intro conjI idle pos m above u below r conv)
qed

section \<open>Degenerate direction\<close>

lemma isMoving_jumpStep: "isMoving (snd (jumpStep keys player)) = isMoving player"
  by (simp add: jumpStep_def)

lemma isMoving_applyGravity: "isMoving (applyGravity delta player) = isMoving player"
  by (simp add: applyGravity_def)

lemma isMoving_checkGround: "isMoving (checkGround scene player) = isMoving player"
  by (simp add: checkGround_def Let_def split: option.splits)

lemma isMoving_preventFall: "isMoving (preventFall player) = isMoving player"
  by (simp add: preventFall_def)

lemma isMoving_updatePlayer:
  "isMoving (snd (updatePlayer scene delta (keys, player))) = isMoving (fst (steer keys player))"
  by (simp add: updatePlayer_def moveAndLand_def Let_def split_beta isMoving_preventFall
      isMoving_checkGround isMoving_applyGravity isMoving_jumpStep)

lemma isMoving_steer:
  "isMoving (fst (steer keys player)) = (0 < lengthSq (moveDirection keys))"
  by (simp add: steer_def Let_def)

lemma normalized_steer:
  "snd (steer keys player) = (if 0 < lengthSq (moveDirection keys) then [moveDirection keys] else [])"
  by (simp add: steer_def Let_def)

lemma length3_pos: "0 < lengthSq v \<Longrightarrow> 0 < length3 v"
  by (simp add: length3_def)

text \<open>
  C9. When all four directional keys are unset, or opposing keys cancel, the direction vector
  has length zero, the step calls \<open>normalize\<close> on no vector, sets the moving flag to false
  and multiplies the horizontal velocity by 0.9. Whatever the keys, every vector the step
  normalizes has positive length, so the division in \<open>normalize\<close> is by a positive number.
\<close>

theorem zero_direction_decelerates:
  "(forward keys = backward keys \<and> left keys = right keys \<longrightarrow>
      lengthSq (moveDirection keys) = 0
    \<and> steer keys player =
        (player\<lparr>isMoving := False,
                velocity := (velocity player)\<lparr>x := x (velocity player) * 0.9,
                                              z := z (velocity player) * 0.9\<rparr>\<rparr>, [])
    \<and> \<not> isMoving (snd (updatePlayer scene delta (keys, player))))
   \<and> (\<forall>v \<in> set (snd (steer keys player)). 0 < length3 v)"
proof (intro conjI impI)
  assume a: "forward keys = backward keys \<and> left keys = right keys"
  show "lengthSq (moveDirection keys) = 0"
    using a by (simp add: moveDirection_cancel lengthSq_def vec_def)
  show "steer keys player =
        (player\<lparr>isMoving := False,
                velocity := (velocity player)\<lparr>x := x (velocity player) * 0.9,
                                              z := z (velocity player) * 0.9\<rparr>\<rparr>, [])"
    using a by (simp add: steer_idle)
  show "\<not> isMoving (snd (updatePlayer scene delta (keys, player)))"
    using a by (simp add: isMoving_updatePlayer steer_idle)
next
  show "\<forall>v \<in> set (snd (steer keys player)). 0 < length3 v"
    by (simp add: normalized_steer length3_pos)
qed

theorem zero_direction_decelerates_witness:
  "forward keys0 = backward keys0 \<and> left keys0 = right keys0
   \<and> lengthSq (moveDirection keys0) = 0
   \<and> steer keys0 player0 =
        (player0\<lparr>isMoving := False,
                velocity := (velocity player0)\<lparr>x := x (velocity player0) * 0.9,
                                              z := z (velocity player0) * 0.9\<rparr>\<rparr>, [])
   \<and> \<not> isMoving (snd (updatePlayer floor0 (1 / 10) (keys0, player0)))
   \<and> vec 0 0 (- 1) \<in> set (snd (steer (keys0\<lparr>forward := True\<rparr>) player0))
   \<and> 0 < length3 (vec 0 0 (- 1))"
proof -
  have m: "vec 0 0 (- 1) \<in> set (snd (steer (keys0\<lparr>forward := True\<rparr>) player0))"
    by (simp add: steer_def moveDirection_def keys0_def Let_def lengthSq_def vec_def)
  have "0 < length3 (vec 0 0 (- 1))"
    using zero_direction_decelerates [of "keys0\<lparr>forward := True\<rparr>" player0 floor0 "1 / 10"] m by blast
  then show ?thesis
    using zero_direction_decelerates [of keys0 player0 floor0 "1 / 10"] m by (simp add: keys0_def)
qed

section \<open>Camera\<close>

lemma lengthSq_nonneg: "0 \<le> lengthSq v"
  by (simp add: lengthSq_def)

lemma length3_multiplyScalar: "length3 (multiplyScalar v s) = \<bar>s\<bar> * length3 v"
proof -
  have "lengthSq (multiplyScalar v s) = s\<^sup>2 * lengthSq v"
    by (simp add: lengthSq_def multiplyScalar_def power2_eq_square algebra_simps)
  then show ?thesis
    by (simp add: length3_def real_sqrt_mult)
qed

lemma length3_normalize: "length3 v \<noteq> 0 \<Longrightarrow> length3 (normalize v) = 1"
proof -
  assume nz: "length3 v \<noteq> 0"
  have "0 \<le> length3 v" by (simp add: length3_def lengthSq_nonneg)
  then show ?thesis using nz
    by (simp add: normalize_def length3_multiplyScalar)
qed

lemma sub_add: "sub p (add p v) = multiplyScalar v (- 1)"
  by (simp add: sub_def add_def multiplyScalar_def)

lemma distanceTo_add: "distanceTo p (add p (multiplyScalar d s)) = \<bar>s\<bar> * length3 d"
  using length3_multiplyScalar [of "multiplyScalar d s" "- 1"]
  by (simp add: distanceTo_def sub_add length3_multiplyScalar)

lemma distanceTo_self: "distanceTo p p = 0"
  by (simp add: distanceTo_def sub_def length3_def lengthSq_def)

lemma nine_sin_cos:
  fixes a :: real
  shows "cos a * (cos a * 9) + sin a * (sin a * 9) = 9"
proof -
  have "cos a * (cos a * 9) + sin a * (sin a * 9) = 9 * (sin a * sin a + cos a * cos a)"
    by (simp only: algebra_simps)
  also have "\<dots> = 9"
    using sin_cos_squared_add [of a] by (simp add: power2_eq_square)
  finally show ?thesis .
qed

lemma sight_lengthSq:
  "lengthSq (sub (desiredCameraPos player) (playerHead player)) =
     9 + (1 + 3 * sin (pitch player))\<^sup>2"
  by (simp add: lengthSq_def sub_def desiredCameraPos_def playerHead_def add_def vec_def
      cameraDistance_def cameraHeight_def characterHeight_def power2_eq_square algebra_simps
      nine_sin_cos)

lemma sight_unit: "length3 (direction (sightRay player)) = 1"
proof -
  have "0 < lengthSq (sub (desiredCameraPos player) (playerHead player))"
    unfolding sight_lengthSq by (rule add_pos_nonneg) simp_all
  then have "length3 (sub (desiredCameraPos player) (playerHead player)) \<noteq> 0"
    by (simp add: length3_def)
  then show ?thesis
    by (simp add: sightRay_def length3_normalize)
qed


lemma length3_sub_sym: "length3 (sub u v) = length3 (sub v u)"
proof -
  have "lengthSq (sub u v) = lengthSq (sub v u)"
    by (simp add: lengthSq_def sub_def algebra_simps)
  then show ?thesis by (simp add: length3_def)
qed

lemma add_sub_cancel: "add h (sub d h) = d"
  by (simp add: add_def sub_def)

lemma normalize_rescale: "length3 v \<noteq> 0 \<Longrightarrow> multiplyScalar (normalize v) (length3 v) = v"
  by (simp add: normalize_def multiplyScalar_def)

lemma sight_nonzero: "length3 (sub (desiredCameraPos player) (playerHead player)) \<noteq> 0"
proof -
  have "0 < lengthSq (sub (desiredCameraPos player) (playerHead player))"
    unfolding sight_lengthSq by (rule add_pos_nonneg) simp_all
  then show ?thesis
    by (simp add: length3_def)
qed

lemma sight_reaches:
  "add (playerHead player)
     (multiplyScalar (direction (sightRay player))
        (distanceTo (playerHead player) (desiredCameraPos player))) = desiredCameraPos player"
proof -
  let ?v = "sub (desiredCameraPos player) (playerHead player)"
  have "multiplyScalar (direction (sightRay player))
        (distanceTo (playerHead player) (desiredCameraPos player)) = multiplyScalar (normalize ?v) (length3 ?v)"
    by (simp add: sightRay_def distanceTo_def length3_sub_sym [of "playerHead player"])
  also have "\<dots> = ?v"
    using sight_nonzero by (rule normalize_rescale)
  finally show ?thesis
    by (simp add: add_sub_cancel)
qed

lemma camera_free: "scene (sightRay player) = [] \<Longrightarrow> updateCamera scene True player camera = desiredCameraPos player"
  by (simp add: updateCamera_def)

lemma camera_pulled:
  "scene (sightRay player) = i # rest \<Longrightarrow> 0.5 < distance i - 0.2 \<Longrightarrow>
   updateCamera scene True player camera =
     add (playerHead player) (multiplyScalar (direction (sightRay player)) (distance i - 0.2))"
  by (simp add: updateCamera_def Let_def)

lemma camera_collapsed:
  "scene (sightRay player) = i # rest \<Longrightarrow> distance i - 0.2 \<le> 0.5 \<Longrightarrow>
   updateCamera scene True player camera = playerHead player"
  by (simp add: updateCamera_def Let_def)

lemma camera_pulled_distance:
  assumes "scene (sightRay player) = i # rest" "0.5 < distance i - 0.2"
  shows "distanceTo (playerHead player) (updateCamera scene True player camera) = distance i - 0.2"
proof -
  have "distanceTo (playerHead player) (updateCamera scene True player camera) =
      \<bar>distance i - 0.2\<bar> * length3 (direction (sightRay player))"
    using camera_pulled [of scene player i rest camera] assms by (simp only: distanceTo_add)
  then show ?thesis
    using assms(2) by (simp add: sight_unit)
qed

lemma camera_within:
  assumes "scene (sightRay player) = i # rest" "0 \<le> distance i"
  shows "distanceTo (playerHead player) (updateCamera scene True player camera) \<le> distance i"
proof (cases "0.5 < distance i - 0.2")
  case True
  then show ?thesis
    using camera_pulled_distance [of scene player i rest camera] assms(1) by simp
next
  case False
  then have "updateCamera scene True player camera = playerHead player"
    using camera_collapsed [of scene player i rest camera] assms(1) by simp
  then show ?thesis
    using assms(2) by (simp add: distanceTo_self)
qed

text \<open>
  C8. The sight ray starts at the player's head, has unit direction and reaches the desired
  camera position at its bound \<open>far\<close>. With the character model loaded: when the ray
  reports no obstruction the camera is placed at the desired position; when it reports one
  and the hit distance minus 0.2 exceeds 0.5, the camera is placed on the ray at that
  distance from the head; otherwise exactly at the head. In both cases with an obstruction
  the camera is no farther from the head than the obstruction. Without the character model
  the camera is left where it is.
\<close>

theorem camera_placement:
  "(scene (sightRay player) = [] \<longrightarrow>
      updateCamera scene True player camera = desiredCameraPos player)
   \<and> (scene (sightRay player) = i # rest \<and> 0.5 < distance i - 0.2 \<longrightarrow>
        updateCamera scene True player camera =
          add (playerHead player) (multiplyScalar (direction (sightRay player)) (distance i - 0.2))
      \<and> distanceTo (playerHead player) (updateCamera scene True player camera) = distance i - 0.2)
   \<and> (scene (sightRay player) = i # rest \<and> distance i - 0.2 \<le> 0.5 \<longrightarrow>
        updateCamera scene True player camera = playerHead player)
   \<and> (scene (sightRay player) = i # rest \<and> 0 \<le> distance i \<longrightarrow>
        distanceTo (playerHead player) (updateCamera scene True player camera) \<le> distance i)
   \<and> origin (sightRay player) = playerHead player
   \<and> length3 (direction (sightRay player)) = 1
   \<and> far (sightRay player) = Some (distanceTo (playerHead player) (desiredCameraPos player))
   \<and> add (playerHead player)
        (multiplyScalar (direction (sightRay player))
           (distanceTo (playerHead player) (desiredCameraPos player))) = desiredCameraPos player
   \<and> updateCamera scene False player camera = camera"
proof (intro conjI impI)
  show "origin (sightRay player) = playerHead player"
    by (simp add: sightRay_def)
  show "far (sightRay player) = Some (distanceTo (playerHead player) (desiredCameraPos player))"
    by (simp add: sightRay_def)
  show "updateCamera scene False player camera = camera"
    by (simp add: updateCamera_def)
  show "length3 (direction (sightRay player)) = 1"
    by (rule sight_unit)
  show "add (playerHead player)
        (multiplyScalar (direction (sightRay player))
           (distanceTo (playerHead player) (desiredCameraPos player))) = desiredCameraPos player"
    by (rule sight_reaches)
next
  assume "scene (sightRay player) = []"
  then show "updateCamera scene True player camera = desiredCameraPos player"
    by (rule camera_free)
next
  assume a: "scene (sightRay player) = i # rest \<and> 0.5 < distance i - 0.2"
  show "updateCamera scene True player camera =
          add (playerHead player) (multiplyScalar (direction (sightRay player)) (distance i - 0.2))"
    using camera_pulled [of scene player i rest camera] a by blast
  show "distanceTo (playerHead player) (updateCamera scene True player camera) = distance i - 0.2"
    using camera_pulled_distance [of scene player i rest camera] a by blast
next
  assume "scene (sightRay player) = i # rest \<and> distance i - 0.2 \<le> 0.5"
  then show "updateCamera scene True player camera = playerHead player"
    using camera_collapsed [of scene player i rest camera] by blast
next
  assume "scene (sightRay player) = i # rest \<and> 0 \<le> distance i"
  then show "distanceTo (playerHead player) (updateCamera scene True player camera) \<le> distance i"
    using camera_within [of scene player i rest camera] by blast
qed

lemma sqrt10: "3 < sqrt 10" "sqrt 10 < 4"
  by (rule real_less_rsqrt, simp) (rule real_less_lsqrt, simp_all)

lemma sight0: "sightRay player0 = \<lparr>origin = vec 0 1 0, direction = vec 0 (1 / sqrt 10) (3 / sqrt 10), far = Some (sqrt 10)\<rparr>"
  by (simp add: sightRay_def playerHead_def desiredCameraPos_def player0_def vec_def add_def sub_def normalize_def distanceTo_def
      length3_def lengthSq_def multiplyScalar_def cameraDistance_def cameraHeight_def characterHeight_def)

lemma wall_hit: "0 \<le> c \<Longrightarrow> c \<le> 3 \<Longrightarrow> wallBehind c (sightRay player0) = [\<lparr>point = vec 0 (1 + c / 3) c, distance = c * sqrt 10 / 3\<rparr>]"
  using sqrt10 by (simp add: sight0 wallBehind_def planes_def hitAt_def vec_def add_def multiplyScalar_def Let_def)

theorem camera_placement_witness:
  "emptyScene (sightRay player0) = []
   \<and> updateCamera emptyScene True player0 (vec 0 0 0) = desiredCameraPos player0
   \<and> wallBehind (3 / 2) (sightRay player0) =
        [\<lparr>point = vec 0 (3 / 2) (3 / 2), distance = sqrt 10 / 2\<rparr>]
   \<and> 0.5 < sqrt 10 / 2 - 0.2
   \<and> updateCamera (wallBehind (3 / 2)) True player0 (vec 0 0 0) =
        add (playerHead player0)
          (multiplyScalar (direction (sightRay player0)) (sqrt 10 / 2 - 0.2))
   \<and> distanceTo (playerHead player0) (updateCamera (wallBehind (3 / 2)) True player0 (vec 0 0 0))
        \<le> sqrt 10 / 2
   \<and> wallBehind (3 / 10) (sightRay player0) =
        [\<lparr>point = vec 0 (11 / 10) (3 / 10), distance = sqrt 10 / 10\<rparr>]
   \<and> sqrt 10 / 10 - 0.2 \<le> 0.5
   \<and> updateCamera (wallBehind (3 / 10)) True player0 (vec 0 0 0) = playerHead player0"
proof -
  have far_wall: "wallBehind (3 / 2) (sightRay player0) =
      [\<lparr>point = vec 0 (3 / 2) (3 / 2), distance = sqrt 10 / 2\<rparr>]"
    using wall_hit [of "3 / 2"] by simp
  have near_wall: "wallBehind (3 / 10) (sightRay player0) =
      [\<lparr>point = vec 0 (11 / 10) (3 / 10), distance = sqrt 10 / 10\<rparr>]"
    using wall_hit [of "3 / 10"] by simp
  have clear: "emptyScene (sightRay player0) = []"
    by (simp add: emptyScene_def)
  have room: "0.5 < sqrt 10 / 2 - 0.2" and tight: "sqrt 10 / 10 - 0.2 \<le> 0.5"
    and behind: "0 \<le> sqrt 10 / 2"
    using sqrt10 by simp_all
  have free: "updateCamera emptyScene True player0 (vec 0 0 0) = desiredCameraPos player0"
    using camera_placement [of emptyScene player0 "vec 0 0 0"] clear by blast
  let ?hit = "\<lparr>point = vec 0 (3 / 2) (3 / 2), distance = sqrt 10 / 2\<rparr>"
  have pulled: "updateCamera (wallBehind (3 / 2)) True player0 (vec 0 0 0) =
        add (playerHead player0)
          (multiplyScalar (direction (sightRay player0)) (sqrt 10 / 2 - 0.2))"
    using camera_placement [of "wallBehind (3 / 2)" player0 "vec 0 0 0" ?hit "[]"]
      far_wall room by simp
  have within: "distanceTo (playerHead player0)
        (updateCamera (wallBehind (3 / 2)) True player0 (vec 0 0 0)) \<le> sqrt 10 / 2"
    using camera_placement [of "wallBehind (3 / 2)" player0 "vec 0 0 0" ?hit "[]"]
      far_wall behind by simp
  let ?near = "\<lparr>point = vec 0 (11 / 10) (3 / 10), distance = sqrt 10 / 10\<rparr>"
  have collapsed: "updateCamera (wallBehind (3 / 10)) True player0 (vec 0 0 0) = playerHead player0"
    using camera_placement [of "wallBehind (3 / 10)" player0 "vec 0 0 0" ?near "[]"]
      near_wall tight by simp
  show ?thesis
    by (intro conjI clear free far_wall room pulled within near_wall tight collapsed)
qed

end
